theory Spec2Isabelle
  imports Main
begin

section \<open>The V8 script backend of frida-gum: debug-message bridge\<close>

text \<open>
  Source: \<^verbatim>\<open>bindings/gumjs/gumv8scriptbackend.cpp\<close>.

  The backend object and the collaborators it drives (the V8 debug interface, the GLib
  main contexts, the script scheduler, the client's callbacks) are one record. Every
  statement of the source with an effect outside the function's locals appends an
  \<open>event\<close> to the field \<open>log\<close>, in program order, and updates the fields it writes.
  Pointers are addresses (\<open>nat\<close>); a pointer that may be \<^verbatim>\<open>NULL\<close> is a \<open>nat option\<close>.
  Client callbacks (the handler, the destroy notify) are opaque: calling one is an event
  and nothing else.
\<close>

subsection \<open>Data\<close>

text \<open>The three functions the backend pushes onto the JS thread.\<close>

datatype job = EnableDebugger | DisableDebugger | ProcessDebugMessages

text \<open>
  \<^verbatim>\<open>struct _GumV8EmitDebugMessageData\<close>. A state holds one backend, so the field
  \<^verbatim>\<open>backend\<close> (always \<^verbatim>\<open>self\<close>) is left out; the reference it owns is
  counted in the backend's \<open>ref_count\<close>.
\<close>

datatype envelope = Envelope (message: string)

datatype event =
    DestroyNotify nat "nat option"
  | HandlerCall nat string "nat option"
  | StoreRegistration "nat option" "nat option" "nat option"
  | ContextRefThreadDefault nat
  | ContextRef nat
  | ContextUnref nat
  | MutexLock
  | MutexUnlock
  | StoreContext "nat option"
  | PushJob job
  | LockerEnter
  | LockerExit
  | SetMessageHandler bool
  | GetDebugContext
  | NewPersistent nat
  | DeletePersistent nat
  | StoreDebugContext "nat option"
  | RunDebugRuntime
  | SendCommand "nat list" nat
  | FreeCommand
  | SliceNew
  | ObjectRef
  | Strdup string
  | IdleSourceAttach nat envelope
  | FreeMessage string
  | ObjectUnref
  | SliceFree
  | ParentDispose
  | DeletePlatform
  | MutexClear
  | ParentFinalize

text \<open>
  \<^verbatim>\<open>struct _GumV8ScriptBackendPrivate\<close> (the five \<^verbatim>\<open>debug_\<close> fields), then the state
  of the collaborators: whether V8's debug message handler is installed, the addresses of
  the persistent handles allocated with \<^verbatim>\<open>new\<close> and not yet deleted, whether the
  platform (which owns the isolate) still exists, the reference count that GObject keeps
  for the backend object, and the log.
\<close>

record backend =
  debug_handler :: "nat option"
  debug_handler_data :: "nat option"
  debug_handler_data_destroy :: "nat option"
  debug_handler_context :: "nat option"
  debug_context :: "nat option"
  message_hook :: bool
  persistents :: "nat list"
  platform_alive :: bool
  ref_count :: nat
  log :: "event list"

datatype error = AssertionFailed

definition perform :: "event \<Rightarrow> backend \<Rightarrow> backend" where
  "perform e w = w\<lparr>log := log w @ [e]\<rparr>"

text \<open>The state without its log: what two runs are compared on.\<close>

definition forget_log :: "backend \<Rightarrow> backend" where
  "forget_log w = w\<lparr>log := []\<rparr>"

text \<open>The events a run appended to the log it started from.\<close>

definition events_since :: "backend \<Rightarrow> backend \<Rightarrow> event list" where
  "events_since w w' = drop (length (log w)) (log w')"

text \<open>\<^verbatim>\<open>new\<close> returns an address that no live handle has.\<close>

definition fresh :: "nat list \<Rightarrow> nat" where
  "fresh xs = Suc (fold max xs 0)"

text \<open>
  A C string ends at its first NUL: what \<^verbatim>\<open>g_strdup\<close> copies of the bytes it is
  given.
\<close>

definition c_string :: "string \<Rightarrow> string" where
  "c_string str = takeWhile (\<lambda>c. (of_char c :: nat) \<noteq> 0) str"

text \<open>
  A backend after \<^verbatim>\<open>gum_v8_script_backend_init\<close>: nothing registered, no session, and
  the one reference that its creator holds.
\<close>

definition initial :: backend where
  "initial = \<lparr>debug_handler = None, debug_handler_data = None,
     debug_handler_data_destroy = None, debug_handler_context = None,
     debug_context = None, message_hook = False, persistents = [],
     platform_alive = True, ref_count = 1, log = []\<rparr>"

subsection \<open>The debug session\<close>

text \<open>
  \<^verbatim>\<open>gum_v8_script_backend_enable_debugger\<close>. The \<^verbatim>\<open>Locker\<close> is held from its
  declaration to the end of the function; the isolate and handle scopes have no effect of
  their own here. The new persistent handle is stored over whatever \<^verbatim>\<open>debug_context\<close>
  held.
\<close>

definition gum_v8_script_backend_enable_debugger :: "backend \<Rightarrow> backend" where
  "gum_v8_script_backend_enable_debugger w =
     (let w1 = perform LockerEnter w;
          w2 = perform (SetMessageHandler True) (w1\<lparr>message_hook := True\<rparr>);
          w2' = perform GetDebugContext w2;
          p = fresh (persistents w2');
          w3 = perform (NewPersistent p) (w2'\<lparr>persistents := p # persistents w2'\<rparr>);
          w4 = perform (StoreDebugContext (Some p)) (w3\<lparr>debug_context := Some p\<rparr>);
          w5 = perform RunDebugRuntime w4
      in perform LockerExit w5)"

text \<open>
  \<^verbatim>\<open>gum_v8_script_backend_disable_debugger\<close>. \<^verbatim>\<open>delete\<close> of a null pointer does
  nothing.
\<close>

definition gum_v8_script_backend_disable_debugger :: "backend \<Rightarrow> backend" where
  "gum_v8_script_backend_disable_debugger w =
     (let w1 = perform LockerEnter w;
          w2 = (case debug_context w1 of
                  None \<Rightarrow> w1
                | Some p \<Rightarrow> perform (DeletePersistent p)
                             (w1\<lparr>persistents := removeAll p (persistents w1)\<rparr>));
          w3 = perform (StoreDebugContext None) (w2\<lparr>debug_context := None\<rparr>);
          w4 = perform (SetMessageHandler False) (w3\<lparr>message_hook := False\<rparr>)
      in perform LockerExit w4)"

subsection \<open>The handler registry\<close>

text \<open>
  \<^verbatim>\<open>gum_v8_script_backend_set_debug_message_handler\<close>. \<open>thread_default\<close> is the main
  context that \<^verbatim>\<open>g_main_context_ref_thread_default\<close> returns on the calling thread.
\<close>

definition gum_v8_script_backend_set_debug_message_handler ::
  "nat option \<Rightarrow> nat option \<Rightarrow> nat option \<Rightarrow> nat \<Rightarrow> backend \<Rightarrow> backend" where
  "gum_v8_script_backend_set_debug_message_handler handler data data_destroy thread_default w =
     (let w1 = (case debug_handler_data_destroy w of
                  None \<Rightarrow> w
                | Some destroy \<Rightarrow> perform (DestroyNotify destroy (debug_handler_data w)) w);
          w2 = perform (StoreRegistration handler data data_destroy)
                 (w1\<lparr>debug_handler := handler, debug_handler_data := data,
                     debug_handler_data_destroy := data_destroy\<rparr>);
          new_context = (case handler of None \<Rightarrow> None | Some _ \<Rightarrow> Some thread_default);
          w3 = (case handler of
                  None \<Rightarrow> w2
                | Some _ \<Rightarrow> perform (ContextRefThreadDefault thread_default) w2);
          w4 = perform MutexLock w3;
          old_context = debug_handler_context w4;
          w5 = perform (StoreContext new_context) (w4\<lparr>debug_handler_context := new_context\<rparr>);
          w6 = perform MutexUnlock w5;
          w7 = (case old_context of None \<Rightarrow> w6 | Some c \<Rightarrow> perform (ContextUnref c) w6)
      in perform (PushJob (case handler of None \<Rightarrow> DisableDebugger
                                         | Some _ \<Rightarrow> EnableDebugger)) w7)"

subsection \<open>Teardown\<close>

text \<open>
  \<^verbatim>\<open>gum_v8_script_backend_dispose\<close>. \<^verbatim>\<open>g_clear_pointer\<close> on a non-null pointer
  sets it to \<^verbatim>\<open>NULL\<close>, then calls the function on the old value.
\<close>

definition gum_v8_script_backend_dispose :: "backend \<Rightarrow> backend" where
  "gum_v8_script_backend_dispose w =
     (let w1 = (case debug_handler_data_destroy w of
                  None \<Rightarrow> w
                | Some destroy \<Rightarrow> perform (DestroyNotify destroy (debug_handler_data w)) w);
          w2 = perform (StoreRegistration None None None)
                 (w1\<lparr>debug_handler := None, debug_handler_data := None,
                     debug_handler_data_destroy := None\<rparr>);
          w3 = (case debug_handler_context w2 of
                  None \<Rightarrow> w2
                | Some c \<Rightarrow> perform (ContextUnref c)
                             (perform (StoreContext None) (w2\<lparr>debug_handler_context := None\<rparr>)));
          w4 = gum_v8_script_backend_disable_debugger w3
      in perform ParentDispose w4)"

text \<open>\<^verbatim>\<open>gum_v8_script_backend_finalize\<close>. Deleting the platform destroys the isolate.\<close>

definition gum_v8_script_backend_finalize :: "backend \<Rightarrow> backend" where
  "gum_v8_script_backend_finalize w =
     (let w1 = perform DeletePlatform (w\<lparr>platform_alive := False\<rparr>);
          w2 = perform MutexClear w1
      in perform ParentFinalize w2)"

text \<open>
  The references to the backend object, which GObject counts. \<^verbatim>\<open>g_object_ref\<close> adds
  one. \<^verbatim>\<open>g_object_unref\<close> drops one, and when it drops the last one it destroys the
  object before it returns: it runs \<^verbatim>\<open>dispose\<close>, sets the count to zero and runs
  \<^verbatim>\<open>finalize\<close>. On an object with no reference left it changes nothing.
\<close>

definition g_object_ref :: "backend \<Rightarrow> backend" where
  "g_object_ref w = perform ObjectRef (w\<lparr>ref_count := Suc (ref_count w)\<rparr>)"

definition g_object_unref :: "backend \<Rightarrow> backend" where
  "g_object_unref w =
     (let w1 = perform ObjectUnref w
      in if ref_count w1 = 1
         then gum_v8_script_backend_finalize
                ((gum_v8_script_backend_dispose w1)\<lparr>ref_count := 0\<rparr>)
         else w1\<lparr>ref_count := ref_count w1 - 1\<rparr>)"

subsection \<open>The outbound relay\<close>

text \<open>
  \<^verbatim>\<open>gum_v8_script_backend_emit_debug_message\<close>; \<open>json\<close> is the bytes of the
  \<^verbatim>\<open>String::Utf8Value\<close> made from the message, of which \<^verbatim>\<open>g_strdup\<close> copies
  the part before the first NUL. \<open>IdleSourceAttach c d\<close> stands for the four \<^verbatim>\<open>g_source\<close> calls that make
  an idle source with the callback
  \<^verbatim>\<open>gum_v8_script_backend_do_emit_debug_message\<close>, the data \<open>d\<close> and the destroy
  notify \<^verbatim>\<open>gum_v8_emit_debug_message_data_free\<close>, and attach it to the context \<open>c\<close>.
\<close>

definition gum_v8_script_backend_emit_debug_message :: "string \<Rightarrow> backend \<Rightarrow> backend" where
  "gum_v8_script_backend_emit_debug_message json w =
     (let w1 = perform MutexLock w;
          context = debug_handler_context w1;
          w2 = (case context of None \<Rightarrow> w1 | Some c \<Rightarrow> perform (ContextRef c) w1);
          w3 = perform MutexUnlock w2
      in case context of
           None \<Rightarrow> w3
         | Some c \<Rightarrow>
             (let w4 = perform SliceNew w3;
                  w5 = g_object_ref w4;
                  w6 = perform (Strdup (c_string json)) w5;
                  d = Envelope (c_string json);
                  w7 = perform (IdleSourceAttach c d) w6
              in perform (ContextUnref c) w7))"

text \<open>
  \<^verbatim>\<open>gum_v8_script_backend_do_emit_debug_message\<close>: the state and the returned
  \<^verbatim>\<open>gboolean\<close>.
\<close>

definition gum_v8_script_backend_do_emit_debug_message ::
  "envelope \<Rightarrow> backend \<Rightarrow> bool \<times> backend" where
  "gum_v8_script_backend_do_emit_debug_message d w =
     (let w1 = (case debug_handler w of
                  None \<Rightarrow> w
                | Some h \<Rightarrow> perform (HandlerCall h (message d) (debug_handler_data w)) w)
      in (False, w1))"

text \<open>\<^verbatim>\<open>gum_v8_emit_debug_message_data_free\<close>.\<close>

definition gum_v8_emit_debug_message_data_free :: "envelope \<Rightarrow> backend \<Rightarrow> backend" where
  "gum_v8_emit_debug_message_data_free d w =
     (let w1 = perform (FreeMessage (message d)) w;
          w2 = g_object_unref w1
      in perform SliceFree w2)"

subsection \<open>The inbound relay\<close>

text \<open>
  Modelled from the spec: the transcoder \<^verbatim>\<open>g_utf8_to_utf16\<close>, which is GLib's and
  not in the source file. Sections 4.4, 6 and 7 have it convert the UTF-8 text of the
  boundary into the engine's native encoding (UTF-16, the \<^verbatim>\<open>uint16_t\<close> array that
  \<^verbatim>\<open>Debug::SendCommand\<close> takes) and fail on text it cannot transcode. The model
  decodes one character at a time, as GLib's \<^verbatim>\<open>g_utf8_get_char_extended\<close> does: a
  lead byte fixes the length of the sequence, the first bits of the code point and the
  least code point that may take that length; each continuation byte has the form
  \<^verbatim>\<open>10xxxxxx\<close> and adds six bits. Bytes and code units are \<open>nat\<close>: no value here
  reaches \<open>2 ^ 32\<close>. The result \<open>None\<close> is the \<^verbatim>\<open>NULL\<close> that the function returns
  on a byte sequence that is not UTF-8, on a surrogate and on a code point above
  \<^verbatim>\<open>0x10FFFF\<close>.
\<close>

definition utf8_lead :: "nat \<Rightarrow> (nat \<times> nat \<times> nat) option" where
  "utf8_lead b =
     (if b < 0x80 then Some (1, b, 0)
      else if b < 0xc0 then None
      else if b < 0xe0 then Some (2, b mod 0x20, 0x80)
      else if b < 0xf0 then Some (3, b mod 0x10, 0x800)
      else if b < 0xf8 then Some (4, b mod 0x08, 0x10000)
      else if b < 0xfc then Some (5, b mod 0x04, 0x200000)
      else if b < 0xfe then Some (6, b mod 0x02, 0x4000000)
      else None)"

fun utf8_continue :: "nat \<Rightarrow> nat list \<Rightarrow> nat option" where
  "utf8_continue wc [] = Some wc"
| "utf8_continue wc (ch # rest) =
     (if ch div 0x40 \<noteq> 2 then None else utf8_continue (wc * 0x40 + ch mod 0x40) rest)"

text \<open>The code point at the head of \<open>p\<close> and the bytes after it.\<close>

definition g_utf8_get_char_extended :: "nat list \<Rightarrow> (nat \<times> nat list) option" where
  "g_utf8_get_char_extended p =
     (case p of
        [] \<Rightarrow> None
      | b # rest \<Rightarrow>
          (case utf8_lead b of
             None \<Rightarrow> None
           | Some (len, wc0, min_code) \<Rightarrow>
               if length rest < len - 1 then None
               else (case utf8_continue wc0 (take (len - 1) rest) of
                       None \<Rightarrow> None
                     | Some wc \<Rightarrow>
                         if wc < min_code then None else Some (wc, drop (len - 1) rest))))"

text \<open>The UTF-16 code units of one code point: one unit, or a surrogate pair.\<close>

definition utf16_units :: "nat \<Rightarrow> nat list option" where
  "utf16_units wc =
     (if wc < 0xd800 then Some [wc]
      else if wc < 0xe000 then None
      else if wc < 0x10000 then Some [wc]
      else if wc < 0x110000
        then Some [(wc - 0x10000) div 0x400 + 0xd800, (wc - 0x10000) mod 0x400 + 0xdc00]
      else None)"

text \<open>The loop over the string; it ends at the end of the bytes or at a NUL byte.\<close>

function utf8_to_utf16_units :: "nat list \<Rightarrow> nat list option" where
  "utf8_to_utf16_units p =
     (if p = [] \<or> hd p = 0 then Some []
      else (case g_utf8_get_char_extended p of
              None \<Rightarrow> None
            | Some (wc, rest) \<Rightarrow>
                (case utf16_units wc of
                   None \<Rightarrow> None
                 | Some units \<Rightarrow>
                     (case utf8_to_utf16_units rest of
                        None \<Rightarrow> None
                      | Some others \<Rightarrow> Some (units @ others)))))"
  by pat_completeness auto
termination
  by (relation "measure length")
    (auto simp: g_utf8_get_char_extended_def split: list.splits option.splits if_splits)

declare utf8_to_utf16_units.simps [simp del]

definition g_utf8_to_utf16 :: "string \<Rightarrow> nat list option" where
  "g_utf8_to_utf16 str = utf8_to_utf16_units (map of_char str)"

text \<open>
  \<^verbatim>\<open>gum_v8_script_backend_post_debug_message\<close>. \<^verbatim>\<open>g_assert\<close> aborts the process
  when the transcoder returned \<^verbatim>\<open>NULL\<close>: the result \<open>Inl AssertionFailed\<close>.
  \<open>SendCommand command n\<close> is \<^verbatim>\<open>Debug::SendCommand (isolate, command, n)\<close>.
\<close>

definition gum_v8_script_backend_post_debug_message :: "string \<Rightarrow> backend \<Rightarrow> error + backend" where
  "gum_v8_script_backend_post_debug_message msg w =
     (if debug_handler w = None then Inr w
      else (case g_utf8_to_utf16 msg of
              None \<Rightarrow> Inl AssertionFailed
            | Some command \<Rightarrow>
                (let command_length = length command;
                     w1 = perform (SendCommand command command_length) w;
                     w2 = perform FreeCommand w1
                 in Inr (perform (PushJob ProcessDebugMessages) w2))))"

subsection \<open>Text\<close>

text \<open>
  What the claims about the inbound relay call valid UTF-8 text: the UTF-8 encoding of a
  list of Unicode scalar values (code points that are not surrogates), and its UTF-16
  encoding.
\<close>

definition unicode_scalar :: "nat \<Rightarrow> bool" where
  "unicode_scalar cp = (cp < 0xd800 \<or> (0xe000 \<le> cp \<and> cp < 0x110000))"

definition utf8_encode :: "nat \<Rightarrow> nat list" where
  "utf8_encode cp =
     (if cp < 0x80 then [cp]
      else if cp < 0x800 then [0xc0 + cp div 0x40, 0x80 + cp mod 0x40]
      else if cp < 0x10000
        then [0xe0 + cp div 0x1000, 0x80 + cp div 0x40 mod 0x40, 0x80 + cp mod 0x40]
      else [0xf0 + cp div 0x40000, 0x80 + cp div 0x1000 mod 0x40,
            0x80 + cp div 0x40 mod 0x40, 0x80 + cp mod 0x40])"

definition utf16_encode :: "nat \<Rightarrow> nat list" where
  "utf16_encode cp =
     (if cp < 0x10000 then [cp]
      else [0xd800 + (cp - 0x10000) div 0x400, 0xdc00 + (cp - 0x10000) mod 0x400])"

definition utf8_text :: "nat list \<Rightarrow> string" where
  "utf8_text cps = map char_of (concat (map utf8_encode cps))"

text \<open>A C string ends at its first NUL: the text that a \<^verbatim>\<open>const gchar *\<close> carries.\<close>

definition c_text :: "nat list \<Rightarrow> nat list" where
  "c_text cps = takeWhile (\<lambda>cp. cp \<noteq> 0) cps"

subsection \<open>Reading a log\<close>

fun is_destroy :: "event \<Rightarrow> bool" where
  "is_destroy (DestroyNotify f d) = True"
| "is_destroy _ = False"

fun is_store_registration :: "event \<Rightarrow> bool" where
  "is_store_registration (StoreRegistration h d f) = True"
| "is_store_registration _ = False"

fun is_store_context :: "event \<Rightarrow> bool" where
  "is_store_context (StoreContext c) = True"
| "is_store_context _ = False"

fun is_mutex_unlock :: "event \<Rightarrow> bool" where
  "is_mutex_unlock MutexUnlock = True"
| "is_mutex_unlock _ = False"

fun is_delete_persistent :: "event \<Rightarrow> bool" where
  "is_delete_persistent (DeletePersistent p) = True"
| "is_delete_persistent _ = False"

fun pushed_jobs :: "event list \<Rightarrow> job list" where
  "pushed_jobs [] = []"
| "pushed_jobs (PushJob j # evs) = j # pushed_jobs evs"
| "pushed_jobs (_ # evs) = pushed_jobs evs"

text \<open>The index of the first event that satisfies \<open>P\<close> (the length when none does).\<close>

definition position :: "(event \<Rightarrow> bool) \<Rightarrow> event list \<Rightarrow> nat" where
  "position P evs = length (takeWhile (\<lambda>e. \<not> P e) evs)"

definition occurrences :: "(event \<Rightarrow> bool) \<Rightarrow> event list \<Rightarrow> nat" where
  "occurrences P evs = length (filter P evs)"

text \<open>Whether the backend's mutex is held after the events, when it was free before.\<close>

definition mutex_held :: "event list \<Rightarrow> bool" where
  "mutex_held evs =
     fold (\<lambda>e held. if e = MutexLock then True else if e = MutexUnlock then False else held)
       evs False"

subsection \<open>Sample states\<close>

text \<open>
  Handler \<open>1\<close> with data \<open>10\<close> and destroy notify \<open>100\<close>, registered from a thread whose
  main context is \<open>7\<close>; then the enable job that the registration pushed has run.
\<close>

definition registered :: backend where
  "registered =
     gum_v8_script_backend_set_debug_message_handler (Some 1) (Some 10) (Some 100) 7 initial"

definition enabled :: backend where
  "enabled = gum_v8_script_backend_enable_debugger registered"

section \<open>Properties\<close>

subsection \<open>What each function appends to the log\<close>

lemma events_since_append [simp]:
  "log w' = log w @ evs \<Longrightarrow> events_since w w' = evs"
  by (simp add: events_since_def)

lemma log_enable_debugger:
  "log (gum_v8_script_backend_enable_debugger w) = log w @
     [LockerEnter, SetMessageHandler True, GetDebugContext,
      NewPersistent (fresh (persistents w)),
      StoreDebugContext (Some (fresh (persistents w))), RunDebugRuntime, LockerExit]"
  by (simp add: gum_v8_script_backend_enable_debugger_def perform_def Let_def)

lemma log_disable_debugger:
  "log (gum_v8_script_backend_disable_debugger w) = log w @
     [LockerEnter] @
     (case debug_context w of None \<Rightarrow> [] | Some p \<Rightarrow> [DeletePersistent p]) @
     [StoreDebugContext None, SetMessageHandler False, LockerExit]"
  by (simp add: gum_v8_script_backend_disable_debugger_def perform_def Let_def
      split: option.splits)

lemma forget_log_disable_debugger:
  "forget_log (gum_v8_script_backend_disable_debugger w) =
     forget_log (w\<lparr>debug_context := None, message_hook := False,
       persistents := (case debug_context w of
                         None \<Rightarrow> persistents w
                       | Some p \<Rightarrow> removeAll p (persistents w))\<rparr>)"
  by (simp add: gum_v8_script_backend_disable_debugger_def perform_def forget_log_def Let_def
      split: option.splits)

lemma log_set_debug_message_handler:
  "log (gum_v8_script_backend_set_debug_message_handler handler data data_destroy ctx w) =
     log w @
     (case debug_handler_data_destroy w of
        None \<Rightarrow> []
      | Some destroy \<Rightarrow> [DestroyNotify destroy (debug_handler_data w)]) @
     [StoreRegistration handler data data_destroy] @
     (case handler of None \<Rightarrow> [] | Some h \<Rightarrow> [ContextRefThreadDefault ctx]) @
     [MutexLock,
      StoreContext (case handler of None \<Rightarrow> None | Some h \<Rightarrow> Some ctx),
      MutexUnlock] @
     (case debug_handler_context w of None \<Rightarrow> [] | Some c \<Rightarrow> [ContextUnref c]) @
     [PushJob (case handler of None \<Rightarrow> DisableDebugger | Some h \<Rightarrow> EnableDebugger)]"
  by (simp add: gum_v8_script_backend_set_debug_message_handler_def perform_def Let_def
      split: option.splits)

lemma log_dispose:
  "log (gum_v8_script_backend_dispose w) = log w @
     (case debug_handler_data_destroy w of
        None \<Rightarrow> []
      | Some destroy \<Rightarrow> [DestroyNotify destroy (debug_handler_data w)]) @
     [StoreRegistration None None None] @
     (case debug_handler_context w of
        None \<Rightarrow> []
      | Some c \<Rightarrow> [StoreContext None, ContextUnref c]) @
     [LockerEnter] @
     (case debug_context w of None \<Rightarrow> [] | Some p \<Rightarrow> [DeletePersistent p]) @
     [StoreDebugContext None, SetMessageHandler False, LockerExit, ParentDispose]"
  by (simp add: gum_v8_script_backend_dispose_def log_disable_debugger perform_def Let_def
      split: option.splits)

lemma log_finalize:
  "log (gum_v8_script_backend_finalize w) = log w @ [DeletePlatform, MutexClear, ParentFinalize]"
  by (simp add: gum_v8_script_backend_finalize_def perform_def Let_def)

lemma do_emit_debug_message_eq:
  "gum_v8_script_backend_do_emit_debug_message d w =
     (False, w\<lparr>log := log w @
        (case debug_handler w of
           None \<Rightarrow> []
         | Some h \<Rightarrow> [HandlerCall h (message d) (debug_handler_data w)])\<rparr>)"
  by (simp add: gum_v8_script_backend_do_emit_debug_message_def perform_def Let_def
      split: option.splits)

lemma fields_perform [simp]:
  "debug_handler (perform e w) = debug_handler w"
  "debug_handler_data (perform e w) = debug_handler_data w"
  "debug_handler_data_destroy (perform e w) = debug_handler_data_destroy w"
  "debug_handler_context (perform e w) = debug_handler_context w"
  "debug_context (perform e w) = debug_context w"
  "ref_count (perform e w) = ref_count w"
  "log (perform e w) = log w @ [e]"
  by (simp_all add: perform_def)

lemma teardown_events:
  "events_since w (gum_v8_script_backend_finalize (gum_v8_script_backend_dispose w)) =
     (case debug_handler_data_destroy w of
        None \<Rightarrow> []
      | Some destroy \<Rightarrow> [DestroyNotify destroy (debug_handler_data w)]) @
     [StoreRegistration None None None] @
     (case debug_handler_context w of
        None \<Rightarrow> []
      | Some c \<Rightarrow> [StoreContext None, ContextUnref c]) @
     [LockerEnter] @
     (case debug_context w of None \<Rightarrow> [] | Some p \<Rightarrow> [DeletePersistent p]) @
     [StoreDebugContext None, SetMessageHandler False, LockerExit, ParentDispose,
      DeletePlatform, MutexClear, ParentFinalize]"
  by (simp add: events_since_def log_finalize log_dispose)

lemma log_finalize_update:
  "log (gum_v8_script_backend_finalize (w\<lparr>ref_count := n\<rparr>)) =
     log w @ [DeletePlatform, MutexClear, ParentFinalize]"
  by (simp add: gum_v8_script_backend_finalize_def perform_def Let_def)

lemma log_g_object_unref:
  "log (g_object_unref w) = log w @ [ObjectUnref] @
     (if ref_count w = 1
      then events_since w (gum_v8_script_backend_finalize (gum_v8_script_backend_dispose w))
      else [])"
  by (simp add: g_object_unref_def Let_def teardown_events log_finalize_update log_dispose
      split: option.splits)

lemma log_emit_debug_message_data_free:
  "log (gum_v8_emit_debug_message_data_free d w) = log w @
     [FreeMessage (message d), ObjectUnref] @
     (if ref_count w = 1
      then events_since w (gum_v8_script_backend_finalize (gum_v8_script_backend_dispose w))
      else []) @
     [SliceFree]"
  by (simp add: gum_v8_emit_debug_message_data_free_def Let_def log_g_object_unref
      teardown_events split: option.splits)

lemma forget_log_emit_debug_message_data_free:
  "forget_log (gum_v8_emit_debug_message_data_free d w) =
     (if ref_count w = 1
      then forget_log (w\<lparr>debug_handler := None, debug_handler_data := None,
             debug_handler_data_destroy := None, debug_handler_context := None,
             debug_context := None, message_hook := False,
             persistents := (case debug_context w of
                               None \<Rightarrow> persistents w
                             | Some p \<Rightarrow> removeAll p (persistents w)),
             platform_alive := False, ref_count := 0\<rparr>)
      else forget_log (w\<lparr>ref_count := ref_count w - 1\<rparr>))"
  by (simp add: gum_v8_emit_debug_message_data_free_def g_object_unref_def
      gum_v8_script_backend_finalize_def gum_v8_script_backend_dispose_def
      gum_v8_script_backend_disable_debugger_def perform_def forget_log_def Let_def
      split: option.splits)

lemma ref_count_set_debug_message_handler:
  "ref_count (gum_v8_script_backend_set_debug_message_handler handler data data_destroy ctx w)
     = ref_count w"
  by (simp add: gum_v8_script_backend_set_debug_message_handler_def perform_def Let_def
      split: option.splits)

lemma ref_count_emit_debug_message:
  "ref_count (gum_v8_script_backend_emit_debug_message json w) =
     (case debug_handler_context w of None \<Rightarrow> ref_count w | Some c \<Rightarrow> Suc (ref_count w))"
  by (simp add: gum_v8_script_backend_emit_debug_message_def g_object_ref_def perform_def
      Let_def split: option.splits)

lemma registration_set_debug_message_handler:
  "debug_handler (gum_v8_script_backend_set_debug_message_handler handler data data_destroy ctx w)
     = handler
   \<and> debug_handler_data
       (gum_v8_script_backend_set_debug_message_handler handler data data_destroy ctx w) = data
   \<and> debug_handler_data_destroy
       (gum_v8_script_backend_set_debug_message_handler handler data data_destroy ctx w)
     = data_destroy"
  by (simp add: gum_v8_script_backend_set_debug_message_handler_def perform_def Let_def
      split: option.splits)

lemma log_emit_debug_message:
  "log (gum_v8_script_backend_emit_debug_message json w) = log w @
     (case debug_handler_context w of
        None \<Rightarrow> [MutexLock, MutexUnlock]
      | Some c \<Rightarrow> [MutexLock, ContextRef c, MutexUnlock, SliceNew, ObjectRef,
                   Strdup (c_string json), IdleSourceAttach c (Envelope (c_string json)),
                   ContextUnref c])"
  by (simp add: gum_v8_script_backend_emit_debug_message_def g_object_ref_def perform_def
      Let_def split: option.splits)

lemma occurrences_simps [simp]:
  "occurrences P [] = 0"
  "occurrences P (e # evs) = (if P e then Suc (occurrences P evs) else occurrences P evs)"
  "occurrences P (evs @ evs') = occurrences P evs + occurrences P evs'"
  by (simp_all add: occurrences_def)

lemma position_simps [simp]:
  "position P [] = 0"
  "position P (e # evs) = (if P e then 0 else Suc (position P evs))"
  by (simp_all add: position_def)

subsection \<open>Transcoding valid text\<close>

lemma utf8_trail_div: "(0x80 + x mod 0x40) div 0x40 = (2::nat)"
  by simp

lemma utf8_trail_mod: "(0x80 + x mod 0x40) mod 0x40 = (x mod 0x40 :: nat)"
  by (simp add: mod_add_left_eq [symmetric])

lemma utf8_lead1: "b < 0x80 \<Longrightarrow> utf8_lead b = Some (1, b, 0)"
  by (simp add: utf8_lead_def)

lemma utf8_lead2: "a < 0x20 \<Longrightarrow> utf8_lead (0xc0 + a) = Some (2, a, 0x80)"
  by (simp add: utf8_lead_def mod_add_left_eq [symmetric])

lemma utf8_lead3: "a < 0x10 \<Longrightarrow> utf8_lead (0xe0 + a) = Some (3, a, 0x800)"
  by (simp add: utf8_lead_def mod_add_left_eq [symmetric])

lemma utf8_lead4: "a < 0x08 \<Longrightarrow> utf8_lead (0xf0 + a) = Some (4, a, 0x10000)"
  by (simp add: utf8_lead_def mod_add_left_eq [symmetric])

lemma utf8_continue_trail:
  "utf8_continue wc ((0x80 + x mod 0x40) # rest) = utf8_continue (wc * 0x40 + x mod 0x40) rest"
  by (simp only: utf8_continue.simps utf8_trail_div utf8_trail_mod) simp

lemma join64: "x div 0x40 * 0x40 + x mod 0x40 = (x::nat)"
  by simp

lemma get_char_sequence:
  assumes "utf8_lead b = Some (len, wc0, min_code)" and "length trail = len - 1"
    and "utf8_continue wc0 trail = Some wc" and "min_code \<le> wc"
  shows "g_utf8_get_char_extended (b # trail @ rest) = Some (wc, rest)"
  using assms by (simp add: g_utf8_get_char_extended_def del: utf8_continue.simps)

lemma get_char_1:
  assumes "cp < 0x80"
  shows "g_utf8_get_char_extended (utf8_encode cp @ rest) = Some (cp, rest)"
proof -
  have enc: "utf8_encode cp = [cp]"
    using assms by (simp add: utf8_encode_def)
  show ?thesis
    using get_char_sequence [OF utf8_lead1 [OF assms], of "[]" cp rest]
    by (simp add: enc)
qed

lemma get_char_2:
  assumes "0x80 \<le> cp" "cp < 0x800"
  shows "g_utf8_get_char_extended (utf8_encode cp @ rest) = Some (cp, rest)"
proof -
  have enc: "utf8_encode cp = [0xc0 + cp div 0x40, 0x80 + cp mod 0x40]"
    using assms by (simp add: utf8_encode_def)
  have a: "cp div 0x40 < 0x20" using assms by simp
  have c: "utf8_continue (cp div 0x40) [0x80 + cp mod 0x40] = Some cp"
    by (simp only: utf8_continue_trail) (simp only: utf8_continue.simps(1) join64)
  show ?thesis
    unfolding enc
    using get_char_sequence [OF utf8_lead2 [OF a] _ c \<open>0x80 \<le> cp\<close>, of rest]
    by simp
qed

lemma get_char_3:
  assumes "0x800 \<le> cp" "cp < 0x10000"
  shows "g_utf8_get_char_extended (utf8_encode cp @ rest) = Some (cp, rest)"
proof -
  have enc: "utf8_encode cp =
      [0xe0 + cp div 0x1000, 0x80 + cp div 0x40 mod 0x40, 0x80 + cp mod 0x40]"
    using assms by (simp add: utf8_encode_def)
  have a: "cp div 0x1000 < 0x10" using assms by simp
  have d: "cp div 0x1000 = cp div 0x40 div 0x40" by (simp add: div_mult2_eq [symmetric])
  have c: "utf8_continue (cp div 0x1000) [0x80 + cp div 0x40 mod 0x40, 0x80 + cp mod 0x40]
      = Some cp"
    by (simp only: utf8_continue_trail) (simp only: utf8_continue.simps(1) d join64)
  show ?thesis
    unfolding enc
    using get_char_sequence [OF utf8_lead3 [OF a] _ c \<open>0x800 \<le> cp\<close>, of rest]
    by simp
qed

lemma get_char_4:
  assumes "0x10000 \<le> cp" "cp < 0x110000"
  shows "g_utf8_get_char_extended (utf8_encode cp @ rest) = Some (cp, rest)"
proof -
  have enc: "utf8_encode cp =
      [0xf0 + cp div 0x40000, 0x80 + cp div 0x1000 mod 0x40,
       0x80 + cp div 0x40 mod 0x40, 0x80 + cp mod 0x40]"
    using assms by (simp add: utf8_encode_def)
  have a: "cp div 0x40000 < 0x08" using assms by simp
  have d1: "cp div 0x1000 = cp div 0x40 div 0x40" by (simp add: div_mult2_eq [symmetric])
  have d2: "cp div 0x40000 = cp div 0x40 div 0x40 div 0x40"
    by (simp add: div_mult2_eq [symmetric])
  have c: "utf8_continue (cp div 0x40000)
      [0x80 + cp div 0x1000 mod 0x40, 0x80 + cp div 0x40 mod 0x40, 0x80 + cp mod 0x40]
      = Some cp"
    by (simp only: utf8_continue_trail) (simp only: utf8_continue.simps(1) d1 d2 join64)
  show ?thesis
    unfolding enc
    using get_char_sequence [OF utf8_lead4 [OF a] _ c \<open>0x10000 \<le> cp\<close>, of rest]
    by simp
qed

lemma get_char_encode:
  assumes "cp < 0x110000"
  shows "g_utf8_get_char_extended (utf8_encode cp @ rest) = Some (cp, rest)"
proof -
  consider "cp < 0x80" | "0x80 \<le> cp" "cp < 0x800" | "0x800 \<le> cp" "cp < 0x10000"
    | "0x10000 \<le> cp" "cp < 0x110000"
    using assms by linarith
  then show ?thesis
    by cases (simp_all only: get_char_1 get_char_2 get_char_3 get_char_4)
qed

lemma utf16_units_scalar: "unicode_scalar cp \<Longrightarrow> utf16_units cp = Some (utf16_encode cp)"
  by (auto simp: unicode_scalar_def utf16_units_def utf16_encode_def)

lemma utf8_encode_hd: "hd (utf8_encode cp) = 0 \<longleftrightarrow> cp = 0"
  by (simp add: utf8_encode_def)

lemma utf8_encode_not_Nil: "utf8_encode cp \<noteq> []"
  by (simp add: utf8_encode_def)

lemma units_encode:
  assumes "list_all unicode_scalar cps"
  shows "utf8_to_utf16_units (concat (map utf8_encode cps))
    = Some (concat (map utf16_encode (c_text cps)))"
  using assms
proof (induction cps)
  case Nil
  show ?case by (simp add: utf8_to_utf16_units.simps c_text_def)
next
  case (Cons cp cps)
  show ?case
  proof (cases "cp = 0")
    case True
    then show ?thesis
      by (subst utf8_to_utf16_units.simps) (simp add: utf8_encode_def c_text_def)
  next
    case False
    from Cons.prems have sc: "unicode_scalar cp" and rest: "list_all unicode_scalar cps"
      by simp_all
    from sc have lt: "cp < 0x110000" by (auto simp: unicode_scalar_def)
    have "utf8_to_utf16_units (utf8_encode cp @ concat (map utf8_encode cps))
        = Some (utf16_encode cp @ concat (map utf16_encode (c_text cps)))"
      by (subst utf8_to_utf16_units.simps)
        (simp add: utf8_encode_hd utf8_encode_not_Nil False get_char_encode [OF lt]
          utf16_units_scalar [OF sc] Cons.IH [OF rest])
    with False show ?thesis by (simp add: c_text_def)
  qed
qed

lemma utf8_encode_byte:
  assumes "cp < 0x110000" and "b \<in> set (utf8_encode cp)"
  shows "b < 256"
proof -
  have "cp div 0x40000 < 0x08" using assms(1) by simp
  moreover have "cp < 0x10000 \<Longrightarrow> cp div 0x1000 < 0x10" by simp
  moreover have "cp < 0x800 \<Longrightarrow> cp div 0x40 < 0x20" by simp
  moreover have "\<And>x::nat. x mod 0x40 < 0x40" by simp
  ultimately show ?thesis
    using assms(2) by (auto simp: utf8_encode_def add_less_le_mono split: if_splits)
qed

lemma of_char_utf8_text:
  assumes "list_all unicode_scalar cps"
  shows "map of_char (utf8_text cps) = concat (map utf8_encode cps)"
proof -
  have "b < 256" if "b \<in> set (concat (map utf8_encode cps))" for b
  proof -
    from that obtain cp where "cp \<in> set cps" and b: "b \<in> set (utf8_encode cp)" by auto
    with assms have "unicode_scalar cp" by (simp add: list_all_iff)
    then have "cp < 0x110000" by (auto simp: unicode_scalar_def)
    then show ?thesis using b by (rule utf8_encode_byte)
  qed
  then have "map (\<lambda>b. of_char (char_of b :: char)) (concat (map utf8_encode cps))
      = concat (map utf8_encode cps)"
    by (intro map_idI) simp
  then show ?thesis by (simp add: utf8_text_def comp_def)
qed

lemma g_utf8_to_utf16_text:
  "list_all unicode_scalar cps \<Longrightarrow>
   g_utf8_to_utf16 (utf8_text cps) = Some (concat (map utf16_encode (c_text cps)))"
  by (simp add: g_utf8_to_utf16_def of_char_utf8_text units_encode)

lemma utf8_text_ascii:
  "list_all (\<lambda>c. (of_char c :: nat) < 0x80) s \<Longrightarrow> utf8_text (map of_char s) = s"
  by (induction s) (simp_all add: utf8_text_def utf8_encode_def)

subsection \<open>Replacing the registration\<close>

text \<open>
  Claim C1, as the code has it. A call to \<^verbatim>\<open>set_debug_message_handler\<close> that finds a
  destroy notify registered invokes it exactly once, on the data registered with it, and
  with the mutex free. The call is the first effect of the function: it comes before the
  handler fields are overwritten and before the main context is swapped under the mutex,
  not after the swap.
\<close>

theorem set_debug_message_handler_destroys_before_swap:
  assumes "debug_handler_data_destroy w = Some destroy"
  shows "events_since w
           (gum_v8_script_backend_set_debug_message_handler handler data data_destroy ctx w)
         = [DestroyNotify destroy (debug_handler_data w),
            StoreRegistration handler data data_destroy] @
           (case handler of None \<Rightarrow> [] | Some h \<Rightarrow> [ContextRefThreadDefault ctx]) @
           [MutexLock,
            StoreContext (case handler of None \<Rightarrow> None | Some h \<Rightarrow> Some ctx),
            MutexUnlock] @
           (case debug_handler_context w of None \<Rightarrow> [] | Some c \<Rightarrow> [ContextUnref c]) @
           [PushJob (case handler of None \<Rightarrow> DisableDebugger | Some h \<Rightarrow> EnableDebugger)]
       \<and> occurrences is_destroy (events_since w
           (gum_v8_script_backend_set_debug_message_handler handler data data_destroy ctx w)) = 1
       \<and> position is_destroy (events_since w
           (gum_v8_script_backend_set_debug_message_handler handler data data_destroy ctx w)) = 0
       \<and> position is_store_registration (events_since w
           (gum_v8_script_backend_set_debug_message_handler handler data data_destroy ctx w)) = 1
       \<and> position is_destroy (events_since w
             (gum_v8_script_backend_set_debug_message_handler handler data data_destroy ctx w))
           < position is_store_context (events_since w
             (gum_v8_script_backend_set_debug_message_handler handler data data_destroy ctx w))
       \<and> \<not> mutex_held (take
             (position is_destroy (events_since w
               (gum_v8_script_backend_set_debug_message_handler handler data data_destroy ctx w)))
             (events_since w
               (gum_v8_script_backend_set_debug_message_handler handler data data_destroy ctx w)))"
proof -
  let ?evs = "events_since w
    (gum_v8_script_backend_set_debug_message_handler handler data data_destroy ctx w)"
  have evs: "?evs = [DestroyNotify destroy (debug_handler_data w),
            StoreRegistration handler data data_destroy] @
           (case handler of None \<Rightarrow> [] | Some h \<Rightarrow> [ContextRefThreadDefault ctx]) @
           [MutexLock,
            StoreContext (case handler of None \<Rightarrow> None | Some h \<Rightarrow> Some ctx),
            MutexUnlock] @
           (case debug_handler_context w of None \<Rightarrow> [] | Some c \<Rightarrow> [ContextUnref c]) @
           [PushJob (case handler of None \<Rightarrow> DisableDebugger | Some h \<Rightarrow> EnableDebugger)]"
    using assms by (simp add: events_since_def log_set_debug_message_handler)
  have once: "occurrences is_destroy ?evs = 1"
    unfolding evs by (simp split: option.splits)
  have first: "position is_destroy ?evs = 0" and store: "position is_store_registration ?evs = 1"
    unfolding evs by simp_all
  have swap: "0 < position is_store_context ?evs"
    unfolding evs by simp
  have unlocked: "\<not> mutex_held (take (position is_destroy ?evs) ?evs)"
    unfolding first by (simp add: mutex_held_def)
  from evs once first store swap unlocked show ?thesis by simp
qed

theorem set_debug_message_handler_destroys_before_swap_witness:
  "debug_handler_data_destroy registered = Some 100
   \<and> events_since registered
        (gum_v8_script_backend_set_debug_message_handler (Some 2) (Some 20) (Some 200) 8
          registered)
      = [DestroyNotify 100 (Some 10), StoreRegistration (Some 2) (Some 20) (Some 200),
         ContextRefThreadDefault 8, MutexLock, StoreContext (Some 8), MutexUnlock,
         ContextUnref 7, PushJob EnableDebugger]"
  using set_debug_message_handler_destroys_before_swap
    [where w = registered and destroy = 100 and handler = "Some 2" and data = "Some 20"
       and data_destroy = "Some 200" and ctx = 8]
  by (simp add: registered_def initial_def
      gum_v8_script_backend_set_debug_message_handler_def perform_def Let_def)

text \<open>
  Replacing the sample registration: the destroy notify is event \<open>0\<close>, the stores of the
  handler fields event \<open>1\<close>, the store of the context event \<open>4\<close> and the unlock event
  \<open>5\<close>. The destructor does not run after the swap.
\<close>

theorem set_debug_message_handler_destroy_after_swap_counterexample:
  "debug_handler_data_destroy registered = Some 100
   \<and> \<not> position is_mutex_unlock (events_since registered
        (gum_v8_script_backend_set_debug_message_handler (Some 2) (Some 20) (Some 200) 8
          registered))
       < position is_destroy (events_since registered
        (gum_v8_script_backend_set_debug_message_handler (Some 2) (Some 20) (Some 200) 8
          registered))
   \<and> position is_destroy (events_since registered
        (gum_v8_script_backend_set_debug_message_handler (Some 2) (Some 20) (Some 200) 8
          registered)) = 0
   \<and> position is_store_registration (events_since registered
        (gum_v8_script_backend_set_debug_message_handler (Some 2) (Some 20) (Some 200) 8
          registered)) = 1
   \<and> position is_store_context (events_since registered
        (gum_v8_script_backend_set_debug_message_handler (Some 2) (Some 20) (Some 200) 8
          registered)) = 4
   \<and> position is_mutex_unlock (events_since registered
        (gum_v8_script_backend_set_debug_message_handler (Some 2) (Some 20) (Some 200) 8
          registered)) = 5"
  by (simp add: events_since_def registered_def initial_def
      gum_v8_script_backend_set_debug_message_handler_def perform_def Let_def)

subsection \<open>Delivery\<close>

text \<open>
  Claim C2. The delivery callback reads the registration when it runs, not when the
  message was captured: the envelope that \<^verbatim>\<open>emit_debug_message\<close> attaches holds the
  text (up to its first NUL) and a reference to the backend, and no handler. With a
  handler registered the callback calls that handler on the envelope's text and the data
  registered at that moment; with none it calls nothing. It returns \<^verbatim>\<open>FALSE\<close>, on
  which the main loop destroys the idle source and runs its destroy notify,
  \<^verbatim>\<open>gum_v8_emit_debug_message_data_free\<close>, on the envelope: the text is freed, the
  reference to the backend dropped and the envelope freed. While another reference to
  the backend is held, nothing else happens and only the reference count changes; when
  the envelope held the last reference, dropping it destroys the backend (dispose, then
  finalize) before the envelope is freed. So an envelope captured under one registration
  and delivered after \<^verbatim>\<open>set_debug_message_handler\<close> has installed another goes to the
  new handler with the new data, and one delivered after the handler was removed is only
  released.
\<close>

theorem do_emit_reads_registration_at_delivery:
  "gum_v8_script_backend_do_emit_debug_message d w =
     (False, w\<lparr>log := log w @
        (case debug_handler w of
           None \<Rightarrow> []
         | Some h \<Rightarrow> [HandlerCall h (message d) (debug_handler_data w)])\<rparr>)
   \<and> events_since w (gum_v8_emit_debug_message_data_free d
         (snd (gum_v8_script_backend_do_emit_debug_message d w)))
       = (case debug_handler w of
            None \<Rightarrow> []
          | Some h \<Rightarrow> [HandlerCall h (message d) (debug_handler_data w)]) @
         [FreeMessage (message d), ObjectUnref] @
         (if ref_count w = 1
          then events_since w
                 (gum_v8_script_backend_finalize (gum_v8_script_backend_dispose w))
          else []) @
         [SliceFree]
   \<and> forget_log (gum_v8_emit_debug_message_data_free d
         (snd (gum_v8_script_backend_do_emit_debug_message d w)))
       = (if ref_count w = 1
          then forget_log (w\<lparr>debug_handler := None, debug_handler_data := None,
                 debug_handler_data_destroy := None, debug_handler_context := None,
                 debug_context := None, message_hook := False,
                 persistents := (case debug_context w of
                                   None \<Rightarrow> persistents w
                                 | Some p \<Rightarrow> removeAll p (persistents w)),
                 platform_alive := False, ref_count := 0\<rparr>)
          else forget_log (w\<lparr>ref_count := ref_count w - 1\<rparr>))
   \<and> events_since w (gum_v8_script_backend_emit_debug_message json w)
       = (case debug_handler_context w of
            None \<Rightarrow> [MutexLock, MutexUnlock]
          | Some c \<Rightarrow> [MutexLock, ContextRef c, MutexUnlock, SliceNew, ObjectRef,
                       Strdup (c_string json), IdleSourceAttach c (Envelope (c_string json)),
                       ContextUnref c])
   \<and> ref_count (gum_v8_script_backend_emit_debug_message json w)
       = (case debug_handler_context w of None \<Rightarrow> ref_count w | Some c \<Rightarrow> Suc (ref_count w))
   \<and> events_since
        (gum_v8_script_backend_set_debug_message_handler (Some h') data' destroy' ctx'
          (gum_v8_script_backend_emit_debug_message json w))
        (gum_v8_emit_debug_message_data_free (Envelope (c_string json))
          (snd (gum_v8_script_backend_do_emit_debug_message (Envelope (c_string json))
            (gum_v8_script_backend_set_debug_message_handler (Some h') data' destroy' ctx'
              (gum_v8_script_backend_emit_debug_message json w)))))
      = [HandlerCall h' (c_string json) data', FreeMessage (c_string json), ObjectUnref] @
        (if ref_count (gum_v8_script_backend_emit_debug_message json w) = 1
         then events_since
                (gum_v8_script_backend_set_debug_message_handler (Some h') data' destroy' ctx'
                  (gum_v8_script_backend_emit_debug_message json w))
                (gum_v8_script_backend_finalize (gum_v8_script_backend_dispose
                  (gum_v8_script_backend_set_debug_message_handler (Some h') data' destroy' ctx'
                    (gum_v8_script_backend_emit_debug_message json w))))
         else []) @
        [SliceFree]
   \<and> events_since
        (gum_v8_script_backend_set_debug_message_handler None None None ctx'
          (gum_v8_script_backend_emit_debug_message json w))
        (gum_v8_emit_debug_message_data_free (Envelope (c_string json))
          (snd (gum_v8_script_backend_do_emit_debug_message (Envelope (c_string json))
            (gum_v8_script_backend_set_debug_message_handler None None None ctx'
              (gum_v8_script_backend_emit_debug_message json w)))))
      = [FreeMessage (c_string json), ObjectUnref] @
        (if ref_count (gum_v8_script_backend_emit_debug_message json w) = 1
         then events_since
                (gum_v8_script_backend_set_debug_message_handler None None None ctx'
                  (gum_v8_script_backend_emit_debug_message json w))
                (gum_v8_script_backend_finalize (gum_v8_script_backend_dispose
                  (gum_v8_script_backend_set_debug_message_handler None None None ctx'
                    (gum_v8_script_backend_emit_debug_message json w))))
         else []) @
        [SliceFree]"
proof -
  let ?call = "case debug_handler w of
      None \<Rightarrow> []
    | Some h \<Rightarrow> [HandlerCall h (message d) (debug_handler_data w)]"
  have teardown_log: "events_since (u\<lparr>log := evs\<rparr>)
        (gum_v8_script_backend_finalize (gum_v8_script_backend_dispose (u\<lparr>log := evs\<rparr>)))
      = events_since u (gum_v8_script_backend_finalize (gum_v8_script_backend_dispose u))"
    for u :: backend and evs
    by (simp add: teardown_events split: option.splits)
  have callback: "gum_v8_script_backend_do_emit_debug_message d u =
      (False, u\<lparr>log := log u @
         (case debug_handler u of
            None \<Rightarrow> []
          | Some h \<Rightarrow> [HandlerCall h (message d) (debug_handler_data u)])\<rparr>)" for d u
    by (rule do_emit_debug_message_eq)
  have release: "events_since u (gum_v8_emit_debug_message_data_free d
         (snd (gum_v8_script_backend_do_emit_debug_message d u)))
       = (case debug_handler u of
            None \<Rightarrow> []
          | Some h \<Rightarrow> [HandlerCall h (message d) (debug_handler_data u)]) @
         [FreeMessage (message d), ObjectUnref] @
         (if ref_count u = 1
          then events_since u
                 (gum_v8_script_backend_finalize (gum_v8_script_backend_dispose u))
          else []) @
         [SliceFree]" for d u
    by (rule events_since_append)
      (simp add: callback log_emit_debug_message_data_free teardown_log)
  have state: "forget_log (gum_v8_emit_debug_message_data_free d
         (snd (gum_v8_script_backend_do_emit_debug_message d w)))
       = (if ref_count w = 1
          then forget_log (w\<lparr>debug_handler := None, debug_handler_data := None,
                 debug_handler_data_destroy := None, debug_handler_context := None,
                 debug_context := None, message_hook := False,
                 persistents := (case debug_context w of
                                   None \<Rightarrow> persistents w
                                 | Some p \<Rightarrow> removeAll p (persistents w)),
                 platform_alive := False, ref_count := 0\<rparr>)
          else forget_log (w\<lparr>ref_count := ref_count w - 1\<rparr>))"
    by (simp add: callback forget_log_emit_debug_message_data_free)
      (simp add: forget_log_def split: option.splits)
  have capture: "events_since w (gum_v8_script_backend_emit_debug_message json w)
       = (case debug_handler_context w of
            None \<Rightarrow> [MutexLock, MutexUnlock]
          | Some c \<Rightarrow> [MutexLock, ContextRef c, MutexUnlock, SliceNew, ObjectRef,
                       Strdup (c_string json), IdleSourceAttach c (Envelope (c_string json)),
                       ContextUnref c])"
    by (simp add: events_since_def log_emit_debug_message)
  note registration = registration_set_debug_message_handler
    ref_count_set_debug_message_handler
  from callback [of d w] release [of w d] state capture ref_count_emit_debug_message [of json w]
    release [of "gum_v8_script_backend_set_debug_message_handler (Some h') data' destroy' ctx'
      (gum_v8_script_backend_emit_debug_message json w)" "Envelope (c_string json)"]
    release [of "gum_v8_script_backend_set_debug_message_handler None None None ctx'
      (gum_v8_script_backend_emit_debug_message json w)" "Envelope (c_string json)"]
  show ?thesis
    by (simp only: registration option.case envelope.sel append_Nil) simp
qed

theorem do_emit_reads_registration_at_delivery_witness:
  "debug_handler registered = Some 1
   \<and> debug_handler_data registered = Some 10
   \<and> ref_count registered = 1
   \<and> c_string [CHR ''a'', CHR 0x00, CHR ''b''] = ''a''
   \<and> events_since registered (gum_v8_script_backend_emit_debug_message ''{}'' registered)
     = [MutexLock, ContextRef 7, MutexUnlock, SliceNew, ObjectRef, Strdup ''{}'',
        IdleSourceAttach 7 (Envelope ''{}''), ContextUnref 7]
   \<and> ref_count (gum_v8_script_backend_emit_debug_message ''{}'' registered) = 2
   \<and> events_since
        (gum_v8_script_backend_set_debug_message_handler (Some 2) (Some 20) (Some 200) 8
          (gum_v8_script_backend_emit_debug_message ''{}'' registered))
        (gum_v8_emit_debug_message_data_free (Envelope ''{}'')
          (snd (gum_v8_script_backend_do_emit_debug_message (Envelope ''{}'')
            (gum_v8_script_backend_set_debug_message_handler (Some 2) (Some 20) (Some 200) 8
              (gum_v8_script_backend_emit_debug_message ''{}'' registered)))))
      = [HandlerCall 2 ''{}'' (Some 20), FreeMessage ''{}'', ObjectUnref, SliceFree]
   \<and> ref_count (g_object_unref (gum_v8_script_backend_emit_debug_message ''{}'' registered)) = 1
   \<and> events_since
        (g_object_unref (gum_v8_script_backend_emit_debug_message ''{}'' registered))
        (gum_v8_emit_debug_message_data_free (Envelope ''{}'')
          (snd (gum_v8_script_backend_do_emit_debug_message (Envelope ''{}'')
            (g_object_unref (gum_v8_script_backend_emit_debug_message ''{}'' registered)))))
      = [HandlerCall 1 ''{}'' (Some 10), FreeMessage ''{}'', ObjectUnref,
         DestroyNotify 100 (Some 10), StoreRegistration None None None, StoreContext None,
         ContextUnref 7, LockerEnter, StoreDebugContext None, SetMessageHandler False,
         LockerExit, ParentDispose, DeletePlatform, MutexClear, ParentFinalize, SliceFree]"
proof -
  have reg: "debug_handler registered = Some 1" "debug_handler_data registered = Some 10"
    "debug_handler_data_destroy registered = Some 100"
    "debug_handler_context registered = Some 7" "debug_context registered = None"
    "ref_count registered = 1"
    by (simp_all add: registered_def initial_def
        gum_v8_script_backend_set_debug_message_handler_def perform_def Let_def)
  have strings: "c_string [CHR ''a'', CHR 0x00, CHR ''b''] = ''a''" "c_string ''{}'' = ''{}''"
    by (simp_all add: c_string_def)
  let ?captured = "gum_v8_script_backend_emit_debug_message ''{}'' registered"
  have cap: "debug_handler ?captured = Some 1" "debug_handler_data ?captured = Some 10"
    "debug_handler_data_destroy ?captured = Some 100"
    "debug_handler_context ?captured = Some 7" "debug_context ?captured = None"
    "ref_count ?captured = 2"
    by (simp_all add: gum_v8_script_backend_emit_debug_message_def g_object_ref_def
        perform_def Let_def reg)
  let ?last = "g_object_unref ?captured"
  have last: "debug_handler ?last = Some 1" "debug_handler_data ?last = Some 10"
    "debug_handler_data_destroy ?last = Some 100"
    "debug_handler_context ?last = Some 7" "debug_context ?last = None"
    "ref_count ?last = 1"
    by (simp_all add: g_object_unref_def perform_def Let_def cap)
  note replaced = do_emit_reads_registration_at_delivery
    [where w = registered and d = "Envelope ''{}''" and h' = 2 and data' = "Some 20"
       and destroy' = "Some 200" and ctx' = 8 and json = "''{}''"]
  note dropped = do_emit_reads_registration_at_delivery
    [where w = ?last and d = "Envelope ''{}''" and h' = 2 and data' = "Some 20"
       and destroy' = "Some 200" and ctx' = 8 and json = "''{}''"]
  have capture: "events_since registered ?captured
      = [MutexLock, ContextRef 7, MutexUnlock, SliceNew, ObjectRef, Strdup ''{}'',
         IdleSourceAttach 7 (Envelope ''{}''), ContextUnref 7]"
    using replaced [THEN conjunct2, THEN conjunct2, THEN conjunct2, THEN conjunct1]
    by (simp add: reg strings)
  have to_new: "events_since
        (gum_v8_script_backend_set_debug_message_handler (Some 2) (Some 20) (Some 200) 8
          ?captured)
        (gum_v8_emit_debug_message_data_free (Envelope ''{}'')
          (snd (gum_v8_script_backend_do_emit_debug_message (Envelope ''{}'')
            (gum_v8_script_backend_set_debug_message_handler (Some 2) (Some 20) (Some 200) 8
              ?captured))))
      = [HandlerCall 2 ''{}'' (Some 20), FreeMessage ''{}'', ObjectUnref, SliceFree]"
    using replaced [THEN conjunct2, THEN conjunct2, THEN conjunct2, THEN conjunct2,
      THEN conjunct2, THEN conjunct1]
    by (simp add: cap strings)
  have last_reference: "events_since ?last
        (gum_v8_emit_debug_message_data_free (Envelope ''{}'')
          (snd (gum_v8_script_backend_do_emit_debug_message (Envelope ''{}'') ?last)))
      = [HandlerCall 1 ''{}'' (Some 10), FreeMessage ''{}'', ObjectUnref,
         DestroyNotify 100 (Some 10), StoreRegistration None None None, StoreContext None,
         ContextUnref 7, LockerEnter, StoreDebugContext None, SetMessageHandler False,
         LockerExit, ParentDispose, DeletePlatform, MutexClear, ParentFinalize, SliceFree]"
    using dropped [THEN conjunct2, THEN conjunct1]
    by (simp add: last teardown_events)
  from reg(1,2,6) strings(1) capture cap(6) to_new last(6) last_reference
  show ?thesis by blast
qed

subsection \<open>Destroying the backend\<close>

text \<open>
  Claim C3. GObject destroys an object by running its \<^verbatim>\<open>dispose\<close> and then its
  \<^verbatim>\<open>finalize\<close>. When the backend is destroyed with a destroy notify registered, the
  notify is invoked exactly once, and the session is disabled (the persistent handle
  deleted, \<^verbatim>\<open>debug_context\<close> set to null, V8's message handler removed) before the
  platform, and the isolate with it, is deleted.
\<close>

theorem dispose_then_finalize_order:
  assumes "debug_handler_data_destroy w = Some destroy"
  shows "events_since w (gum_v8_script_backend_finalize (gum_v8_script_backend_dispose w))
         = [DestroyNotify destroy (debug_handler_data w), StoreRegistration None None None] @
           (case debug_handler_context w of
              None \<Rightarrow> []
            | Some c \<Rightarrow> [StoreContext None, ContextUnref c]) @
           [LockerEnter] @
           (case debug_context w of None \<Rightarrow> [] | Some p \<Rightarrow> [DeletePersistent p]) @
           [StoreDebugContext None, SetMessageHandler False, LockerExit, ParentDispose,
            DeletePlatform, MutexClear, ParentFinalize]
       \<and> occurrences is_destroy
             (events_since w (gum_v8_script_backend_finalize (gum_v8_script_backend_dispose w)))
           = 1
       \<and> position is_destroy
             (events_since w (gum_v8_script_backend_finalize (gum_v8_script_backend_dispose w)))
           < position (\<lambda>e. e = SetMessageHandler False)
               (events_since w (gum_v8_script_backend_finalize (gum_v8_script_backend_dispose w)))
       \<and> position (\<lambda>e. e = StoreDebugContext None)
             (events_since w (gum_v8_script_backend_finalize (gum_v8_script_backend_dispose w)))
           < position (\<lambda>e. e = DeletePlatform)
               (events_since w (gum_v8_script_backend_finalize (gum_v8_script_backend_dispose w)))
       \<and> position (\<lambda>e. e = SetMessageHandler False)
             (events_since w (gum_v8_script_backend_finalize (gum_v8_script_backend_dispose w)))
           < position (\<lambda>e. e = DeletePlatform)
               (events_since w (gum_v8_script_backend_finalize (gum_v8_script_backend_dispose w)))
       \<and> position (\<lambda>e. e = DeletePlatform)
             (events_since w (gum_v8_script_backend_finalize (gum_v8_script_backend_dispose w)))
           < length
               (events_since w (gum_v8_script_backend_finalize (gum_v8_script_backend_dispose w)))
       \<and> debug_context (gum_v8_script_backend_dispose w) = None
       \<and> \<not> message_hook (gum_v8_script_backend_dispose w)
       \<and> persistents (gum_v8_script_backend_dispose w)
           = (case debug_context w of
                None \<Rightarrow> persistents w
              | Some p \<Rightarrow> removeAll p (persistents w))
       \<and> platform_alive (gum_v8_script_backend_dispose w) = platform_alive w
       \<and> \<not> platform_alive
             (gum_v8_script_backend_finalize (gum_v8_script_backend_dispose w))"
proof -
  let ?evs = "events_since w (gum_v8_script_backend_finalize (gum_v8_script_backend_dispose w))"
  have evs: "?evs
         = [DestroyNotify destroy (debug_handler_data w), StoreRegistration None None None] @
           (case debug_handler_context w of
              None \<Rightarrow> []
            | Some c \<Rightarrow> [StoreContext None, ContextUnref c]) @
           [LockerEnter] @
           (case debug_context w of None \<Rightarrow> [] | Some p \<Rightarrow> [DeletePersistent p]) @
           [StoreDebugContext None, SetMessageHandler False, LockerExit, ParentDispose,
            DeletePlatform, MutexClear, ParentFinalize]"
    using assms by (simp add: events_since_def log_finalize log_dispose)
  have once: "occurrences is_destroy ?evs = 1"
    unfolding evs by (simp split: option.splits)
  have order: "position is_destroy ?evs < position (\<lambda>e. e = SetMessageHandler False) ?evs"
    "position (\<lambda>e. e = StoreDebugContext None) ?evs < position (\<lambda>e. e = DeletePlatform) ?evs"
    "position (\<lambda>e. e = SetMessageHandler False) ?evs < position (\<lambda>e. e = DeletePlatform) ?evs"
    "position (\<lambda>e. e = DeletePlatform) ?evs < length ?evs"
    unfolding evs by (simp_all add: position_def split: option.splits)
  have state: "debug_context (gum_v8_script_backend_dispose w) = None"
    "\<not> message_hook (gum_v8_script_backend_dispose w)"
    "persistents (gum_v8_script_backend_dispose w)
       = (case debug_context w of None \<Rightarrow> persistents w | Some p \<Rightarrow> removeAll p (persistents w))"
    "platform_alive (gum_v8_script_backend_dispose w) = platform_alive w"
    by (simp_all add: gum_v8_script_backend_dispose_def
        gum_v8_script_backend_disable_debugger_def perform_def Let_def split: option.splits)
  have gone: "\<not> platform_alive
      (gum_v8_script_backend_finalize (gum_v8_script_backend_dispose w))"
    by (simp add: gum_v8_script_backend_finalize_def perform_def Let_def)
  from evs once order state gone show ?thesis by blast
qed

theorem dispose_then_finalize_order_witness:
  "debug_handler_data_destroy enabled = Some 100
   \<and> debug_context enabled = Some 1
   \<and> message_hook enabled
   \<and> events_since enabled (gum_v8_script_backend_finalize (gum_v8_script_backend_dispose enabled))
       = [DestroyNotify 100 (Some 10), StoreRegistration None None None, StoreContext None,
          ContextUnref 7, LockerEnter, DeletePersistent 1, StoreDebugContext None,
          SetMessageHandler False, LockerExit, ParentDispose, DeletePlatform, MutexClear,
          ParentFinalize]
   \<and> persistents (gum_v8_script_backend_dispose enabled) = []"
  using dispose_then_finalize_order [of enabled 100]
  by (simp add: enabled_def registered_def initial_def fresh_def
      gum_v8_script_backend_enable_debugger_def
      gum_v8_script_backend_set_debug_message_handler_def perform_def Let_def)

subsection \<open>Enabling twice\<close>

text \<open>
  Claim C4 asks that a second \<^verbatim>\<open>enable\<close> leave at most one live session handle.
  Replacing handler \<open>1\<close> by handler \<open>2\<close> pushes a second enable job with no disable
  between them. The second run allocates handle \<open>2\<close> and stores it over the pointer to
  handle \<open>1\<close>, which it does not delete: two handles are live, and a later disable
  deletes only handle \<open>2\<close>.
\<close>

theorem enable_debugger_twice_leaks:
  "pushed_jobs (log (gum_v8_script_backend_set_debug_message_handler
       (Some 2) (Some 20) (Some 200) 8 enabled)) = [EnableDebugger, EnableDebugger]
   \<and> debug_context enabled = Some 1
   \<and> persistents enabled = [1]
   \<and> debug_context (gum_v8_script_backend_enable_debugger
         (gum_v8_script_backend_set_debug_message_handler (Some 2) (Some 20) (Some 200) 8
           enabled)) = Some 2
   \<and> persistents (gum_v8_script_backend_enable_debugger
         (gum_v8_script_backend_set_debug_message_handler (Some 2) (Some 20) (Some 200) 8
           enabled)) = [2, 1]
   \<and> occurrences is_delete_persistent (log (gum_v8_script_backend_enable_debugger
         (gum_v8_script_backend_set_debug_message_handler (Some 2) (Some 20) (Some 200) 8
           enabled))) = 0
   \<and> persistents (gum_v8_script_backend_disable_debugger
         (gum_v8_script_backend_enable_debugger
           (gum_v8_script_backend_set_debug_message_handler (Some 2) (Some 20) (Some 200) 8
             enabled))) = [1]"
  by (simp add: enabled_def registered_def initial_def fresh_def
      gum_v8_script_backend_enable_debugger_def gum_v8_script_backend_disable_debugger_def
      gum_v8_script_backend_set_debug_message_handler_def perform_def Let_def)

subsection \<open>The inbound relay without a handler\<close>

text \<open>
  Claim C5. \<^verbatim>\<open>post_debug_message\<close> called when no handler is registered returns at
  once and has no effect: the state it returns is the state it was given, log included,
  so no command went to the engine and no job was pushed.
\<close>

theorem post_debug_message_without_handler:
  assumes "debug_handler w = None"
  shows "gum_v8_script_backend_post_debug_message msg w = Inr w"
  using assms by (simp add: gum_v8_script_backend_post_debug_message_def)

theorem post_debug_message_without_handler_witness:
  "debug_handler initial = None
   \<and> gum_v8_script_backend_post_debug_message ''{}'' initial = Inr initial
   \<and> log initial = []"
  using post_debug_message_without_handler [of initial "''{}''"]
  by (simp add: initial_def)

subsection \<open>The inbound relay with a handler\<close>

text \<open>
  Claim C6. With a handler registered, \<^verbatim>\<open>post_debug_message\<close> on UTF-8 text
  transcodes the text to UTF-16, hands the code units and their number to
  \<^verbatim>\<open>Debug::SendCommand\<close>, frees them and pushes exactly one job,
  \<^verbatim>\<open>do_process_debug_messages\<close>, onto the JS thread; nothing else changes.
\<close>

theorem post_debug_message_with_handler:
  assumes "debug_handler w = Some h" and "list_all unicode_scalar cps"
  shows "gum_v8_script_backend_post_debug_message (utf8_text cps) w
         = Inr (w\<lparr>log := log w @
             [SendCommand (concat (map utf16_encode (c_text cps)))
                (length (concat (map utf16_encode (c_text cps)))),
              FreeCommand, PushJob ProcessDebugMessages]\<rparr>)"
  using assms
  by (simp add: gum_v8_script_backend_post_debug_message_def g_utf8_to_utf16_text
      perform_def Let_def)

theorem post_debug_message_with_handler_witness:
  \<open>debug_handler registered = Some 1
   \<and> list_all unicode_scalar (map of_char ''{"seq":1,"type":"request"}'')
   \<and> utf8_text (map of_char ''{"seq":1,"type":"request"}'') = ''{"seq":1,"type":"request"}''
   \<and> gum_v8_script_backend_post_debug_message ''{"seq":1,"type":"request"}'' registered
       = Inr (registered\<lparr>log := log registered @
           [SendCommand (map of_char ''{"seq":1,"type":"request"}'') 26,
            FreeCommand, PushJob ProcessDebugMessages]\<rparr>)\<close>
proof -
  let ?cps = \<open>map of_char ''{"seq":1,"type":"request"}'' :: nat list\<close>
  have h: "debug_handler registered = Some 1"
    by (simp add: registered_def initial_def
        gum_v8_script_backend_set_debug_message_handler_def perform_def Let_def)
  have v: "list_all unicode_scalar ?cps"
    by (simp add: unicode_scalar_def)
  have t: \<open>utf8_text ?cps = ''{"seq":1,"type":"request"}''\<close>
    by (rule utf8_text_ascii) simp
  have u: \<open>concat (map utf16_encode (c_text ?cps)) = ?cps\<close>
    by (simp add: utf16_encode_def c_text_def)
  from post_debug_message_with_handler [OF h v] h v t u show ?thesis
    by simp
qed

subsection \<open>The outbound relay without a context\<close>

text \<open>
  Claim C7. When a message is captured and no main context is registered, the message is
  dropped: the mutex is taken and released and nothing else happens. No envelope is
  allocated, no idle source is attached, and every field of the backend is as before.
\<close>

theorem emit_debug_message_without_context:
  assumes "debug_handler_context w = None"
  shows "gum_v8_script_backend_emit_debug_message json w
           = w\<lparr>log := log w @ [MutexLock, MutexUnlock]\<rparr>
         \<and> forget_log (gum_v8_script_backend_emit_debug_message json w) = forget_log w
         \<and> events_since w (gum_v8_script_backend_emit_debug_message json w)
             = [MutexLock, MutexUnlock]"
  using assms
  by (simp add: gum_v8_script_backend_emit_debug_message_def perform_def forget_log_def
      events_since_def Let_def)

theorem emit_debug_message_without_context_witness:
  "debug_handler_context initial = None
   \<and> gum_v8_script_backend_emit_debug_message ''{}'' initial
       = initial\<lparr>log := [MutexLock, MutexUnlock]\<rparr>"
  using emit_debug_message_without_context [of initial "''{}''"]
  by (simp add: initial_def)

subsection \<open>Disabling the session\<close>

text \<open>
  Claim C8. Disabling is idempotent. It leaves \<^verbatim>\<open>debug_context\<close> null, deletes the
  persistent handle that was stored there and removes V8's message handler; a second
  call finds a null pointer, deletes nothing, and leaves the state of the first call.
\<close>

theorem disable_debugger_idempotent:
  "forget_log (gum_v8_script_backend_disable_debugger
       (gum_v8_script_backend_disable_debugger w))
     = forget_log (gum_v8_script_backend_disable_debugger w)
   \<and> debug_context (gum_v8_script_backend_disable_debugger w) = None
   \<and> \<not> message_hook (gum_v8_script_backend_disable_debugger w)
   \<and> persistents (gum_v8_script_backend_disable_debugger w)
       = (case debug_context w of
            None \<Rightarrow> persistents w
          | Some p \<Rightarrow> removeAll p (persistents w))
   \<and> events_since (gum_v8_script_backend_disable_debugger w)
         (gum_v8_script_backend_disable_debugger (gum_v8_script_backend_disable_debugger w))
       = [LockerEnter, StoreDebugContext None, SetMessageHandler False, LockerExit]"
proof -
  let ?d = "gum_v8_script_backend_disable_debugger w"
  have ctx: "debug_context ?d = None" and hook: "\<not> message_hook ?d"
    and live: "persistents ?d
      = (case debug_context w of None \<Rightarrow> persistents w | Some p \<Rightarrow> removeAll p (persistents w))"
    by (simp_all add: gum_v8_script_backend_disable_debugger_def perform_def Let_def
        split: option.splits)
  have "forget_log (gum_v8_script_backend_disable_debugger ?d) = forget_log ?d"
    by (simp add: forget_log_disable_debugger [of ?d] ctx)
      (simp add: gum_v8_script_backend_disable_debugger_def perform_def forget_log_def Let_def
        split: option.splits)
  moreover have "events_since ?d (gum_v8_script_backend_disable_debugger ?d)
      = [LockerEnter, StoreDebugContext None, SetMessageHandler False, LockerExit]"
    by (simp add: log_disable_debugger [of ?d] ctx)
  ultimately show ?thesis using ctx hook live by simp
qed

theorem disable_debugger_idempotent_witness:
  "debug_context enabled = Some 1
   \<and> persistents enabled = [1]
   \<and> message_hook enabled
   \<and> forget_log (gum_v8_script_backend_disable_debugger
         (gum_v8_script_backend_disable_debugger enabled))
       = forget_log (gum_v8_script_backend_disable_debugger enabled)
   \<and> debug_context (gum_v8_script_backend_disable_debugger enabled) = None
   \<and> persistents (gum_v8_script_backend_disable_debugger enabled) = []"
  using disable_debugger_idempotent [of enabled]
  by (simp add: enabled_def registered_def initial_def fresh_def
      gum_v8_script_backend_enable_debugger_def
      gum_v8_script_backend_set_debug_message_handler_def perform_def Let_def)

subsection \<open>The assertion on the transcoder's result\<close>

text \<open>
  Claim C9. With a handler registered, \<^verbatim>\<open>post_debug_message\<close> stops at the assertion
  exactly when the transcoder returned \<^verbatim>\<open>NULL\<close>; and on the UTF-8 encoding of any
  list of Unicode scalar values the transcoder returns the UTF-16 encoding of the text (up
  to its first NUL), so the assertion holds.
\<close>

theorem post_debug_message_transcoding_assertion:
  assumes "debug_handler w = Some h" and "list_all unicode_scalar cps"
  shows "(gum_v8_script_backend_post_debug_message msg w = Inl AssertionFailed)
           = (g_utf8_to_utf16 msg = None)
       \<and> g_utf8_to_utf16 (utf8_text cps) = Some (concat (map utf16_encode (c_text cps)))
       \<and> gum_v8_script_backend_post_debug_message (utf8_text cps) w \<noteq> Inl AssertionFailed"
  using assms
  by (simp add: gum_v8_script_backend_post_debug_message_def g_utf8_to_utf16_text
      split: option.splits)

theorem post_debug_message_transcoding_assertion_witness:
  "debug_handler registered = Some 1
   \<and> g_utf8_to_utf16 [CHR 0xC3] = None
   \<and> gum_v8_script_backend_post_debug_message [CHR 0xC3] registered = Inl AssertionFailed
   \<and> list_all unicode_scalar [0x7b, 0xe9, 0x20ac, 0x1f600, 0x7d]
   \<and> utf8_text [0x7b, 0xe9, 0x20ac, 0x1f600, 0x7d]
       = [CHR 0x7B, CHR 0xC3, CHR 0xA9, CHR 0xE2, CHR 0x82, CHR 0xAC,
          CHR 0xF0, CHR 0x9F, CHR 0x98, CHR 0x80, CHR 0x7D]
   \<and> g_utf8_to_utf16 (utf8_text [0x7b, 0xe9, 0x20ac, 0x1f600, 0x7d])
       = Some [0x7b, 0xe9, 0x20ac, 0xd83d, 0xde00, 0x7d]
   \<and> gum_v8_script_backend_post_debug_message (utf8_text [0x7b, 0xe9, 0x20ac, 0x1f600, 0x7d])
         registered \<noteq> Inl AssertionFailed"
proof -
  have h: "debug_handler registered = Some 1"
    by (simp add: registered_def initial_def
        gum_v8_script_backend_set_debug_message_handler_def perform_def Let_def)
  have bad: "g_utf8_to_utf16 [CHR 0xC3] = None"
    by (simp add: g_utf8_to_utf16_def utf8_to_utf16_units.simps g_utf8_get_char_extended_def
        utf8_lead_def)
  have v: "list_all unicode_scalar [0x7b, 0xe9, 0x20ac, 0x1f600, 0x7d]"
    by (simp add: unicode_scalar_def)
  have t: "utf8_text [0x7b, 0xe9, 0x20ac, 0x1f600, 0x7d]
       = [CHR 0x7B, CHR 0xC3, CHR 0xA9, CHR 0xE2, CHR 0x82, CHR 0xAC,
          CHR 0xF0, CHR 0x9F, CHR 0x98, CHR 0x80, CHR 0x7D]"
    by (simp add: utf8_text_def utf8_encode_def char_of_eq_iff)
  have u: "concat (map utf16_encode (c_text [0x7b, 0xe9, 0x20ac, 0x1f600, 0x7d]))
       = [0x7b, 0xe9, 0x20ac, 0xd83d, 0xde00, 0x7d]"
    by (simp add: utf16_encode_def c_text_def)
  from post_debug_message_transcoding_assertion [OF h v, of "[CHR 0xC3]"] h bad v t u
  show ?thesis by simp
qed

subsection \<open>Disposing twice\<close>

text \<open>
  Claim C10. Disposal invokes the destroy notify, if one is registered, and then sets the
  handler, its data and the destroy notify to null. A second disposal therefore invokes
  no destroy notify, so the notify runs at most once over both; and the delivery callback
  run on a disposed backend finds no handler, calls nothing and changes nothing.
\<close>

theorem dispose_clears_registration:
  "events_since w (gum_v8_script_backend_dispose w) =
     (case debug_handler_data_destroy w of
        None \<Rightarrow> []
      | Some destroy \<Rightarrow> [DestroyNotify destroy (debug_handler_data w)]) @
     [StoreRegistration None None None] @
     (case debug_handler_context w of
        None \<Rightarrow> []
      | Some c \<Rightarrow> [StoreContext None, ContextUnref c]) @
     [LockerEnter] @
     (case debug_context w of None \<Rightarrow> [] | Some p \<Rightarrow> [DeletePersistent p]) @
     [StoreDebugContext None, SetMessageHandler False, LockerExit, ParentDispose]
   \<and> debug_handler (gum_v8_script_backend_dispose w) = None
   \<and> debug_handler_data (gum_v8_script_backend_dispose w) = None
   \<and> debug_handler_data_destroy (gum_v8_script_backend_dispose w) = None
   \<and> events_since (gum_v8_script_backend_dispose w)
         (gum_v8_script_backend_dispose (gum_v8_script_backend_dispose w))
       = [StoreRegistration None None None, LockerEnter, StoreDebugContext None,
          SetMessageHandler False, LockerExit, ParentDispose]
   \<and> occurrences is_destroy
         (events_since w (gum_v8_script_backend_dispose (gum_v8_script_backend_dispose w)))
       = (case debug_handler_data_destroy w of None \<Rightarrow> 0 | Some destroy \<Rightarrow> 1)
   \<and> gum_v8_script_backend_do_emit_debug_message d (gum_v8_script_backend_dispose w)
       = (False, gum_v8_script_backend_dispose w)"
proof -
  let ?w = "gum_v8_script_backend_dispose w"
  have fields: "debug_handler ?w = None" "debug_handler_data ?w = None"
    "debug_handler_data_destroy ?w = None" "debug_handler_context ?w = None"
    "debug_context ?w = None"
    by (simp_all add: gum_v8_script_backend_dispose_def
        gum_v8_script_backend_disable_debugger_def perform_def Let_def split: option.splits)
  have first: "events_since w ?w =
     (case debug_handler_data_destroy w of
        None \<Rightarrow> []
      | Some destroy \<Rightarrow> [DestroyNotify destroy (debug_handler_data w)]) @
     [StoreRegistration None None None] @
     (case debug_handler_context w of
        None \<Rightarrow> []
      | Some c \<Rightarrow> [StoreContext None, ContextUnref c]) @
     [LockerEnter] @
     (case debug_context w of None \<Rightarrow> [] | Some p \<Rightarrow> [DeletePersistent p]) @
     [StoreDebugContext None, SetMessageHandler False, LockerExit, ParentDispose]"
    by (simp add: events_since_def log_dispose)
  have second: "events_since ?w (gum_v8_script_backend_dispose ?w)
       = [StoreRegistration None None None, LockerEnter, StoreDebugContext None,
          SetMessageHandler False, LockerExit, ParentDispose]"
    by (simp add: events_since_def log_dispose [of ?w] fields)
  have both: "events_since w (gum_v8_script_backend_dispose ?w)
       = events_since w ?w @ events_since ?w (gum_v8_script_backend_dispose ?w)"
    by (simp add: events_since_def log_dispose [of ?w] fields) (simp add: log_dispose)
  have count: "occurrences is_destroy (events_since w (gum_v8_script_backend_dispose ?w))
       = (case debug_handler_data_destroy w of None \<Rightarrow> 0 | Some destroy \<Rightarrow> 1)"
    unfolding both first second by (simp split: option.splits)
  have emit: "gum_v8_script_backend_do_emit_debug_message d ?w = (False, ?w)"
    by (simp add: gum_v8_script_backend_do_emit_debug_message_def fields)
  from first fields(1-3) second count emit show ?thesis by blast
qed

theorem dispose_clears_registration_witness:
  "debug_handler_data_destroy enabled = Some 100
   \<and> events_since enabled (gum_v8_script_backend_dispose enabled)
       = [DestroyNotify 100 (Some 10), StoreRegistration None None None, StoreContext None,
          ContextUnref 7, LockerEnter, DeletePersistent 1, StoreDebugContext None,
          SetMessageHandler False, LockerExit, ParentDispose]
   \<and> occurrences is_destroy (events_since enabled
         (gum_v8_script_backend_dispose (gum_v8_script_backend_dispose enabled))) = 1
   \<and> gum_v8_script_backend_do_emit_debug_message (Envelope ''{}'')
         (gum_v8_script_backend_dispose enabled)
       = (False, gum_v8_script_backend_dispose enabled)"
  using dispose_clears_registration [of enabled "Envelope ''{}''"]
  by (simp add: enabled_def registered_def initial_def fresh_def
      gum_v8_script_backend_enable_debugger_def
      gum_v8_script_backend_set_debug_message_handler_def perform_def Let_def)

end
